theory Spec2Isabelle
  imports Complex_Main "HOL-Library.Sublist"
begin

section \<open>Python strings\<close>

text \<open>
  A Python \<open>str\<close> is modelled as a \<open>string\<close>, one \<open>char\<close> per code point, over ASCII
  text: the case mappings, the white space of \<open>split\<close> and \<open>strip\<close> and the classes
  \<open>\w\<close> and \<open>\d\<close> of \<open>re\<close> are the ASCII ones, and a character outside ASCII has no
  case, is no white space, no digit and no word character.
\<close>

definition upper_letters :: string where
  "upper_letters = ''ABCDEFGHIJKLMNOPQRSTUVWXYZ''"

definition lower_letters :: string where
  "lower_letters = ''abcdefghijklmnopqrstuvwxyz''"

definition is_upper :: "char \<Rightarrow> bool" where
  "is_upper c = (c \<in> set upper_letters)"

definition is_lower :: "char \<Rightarrow> bool" where
  "is_lower c = (c \<in> set lower_letters)"

definition is_digit :: "char \<Rightarrow> bool" where
  "is_digit c = (c \<in> set ''0123456789'')"

text \<open>The class \<open>\w\<close> of \<open>re\<close>: letters, digits and the underscore.\<close>

definition is_word :: "char \<Rightarrow> bool" where
  "is_word c = (is_upper c \<or> is_lower c \<or> is_digit c \<or> c = CHR ''_'')"

text \<open>White space as \<open>str.split()\<close> and \<open>str.strip()\<close> see it.\<close>

definition is_space :: "char \<Rightarrow> bool" where
  "is_space c = (c \<in> set [CHR 0x20, CHR 0x09, CHR 0x0A, CHR 0x0B, CHR 0x0C, CHR 0x0D,
                            CHR 0x1C, CHR 0x1D, CHR 0x1E, CHR 0x1F])"

definition lower_char :: "char \<Rightarrow> char" where
  "lower_char c = (case map_of (zip upper_letters lower_letters) c of
                     None \<Rightarrow> c | Some d \<Rightarrow> d)"

text \<open>\<open>s.lower()\<close>\<close>

definition lower :: "string \<Rightarrow> string" where
  "lower s = map lower_char s"

text \<open>\<open>s.isupper()\<close>: at least one cased character, and no lower-case one.\<close>

definition isupper :: "string \<Rightarrow> bool" where
  "isupper s = (list_ex is_upper s \<and> \<not> list_ex is_lower s)"

text \<open>\<open>s.startswith(p)\<close> and \<open>p in s\<close>\<close>

fun startswith :: "string \<Rightarrow> string \<Rightarrow> bool" where
  "startswith s [] = True"
| "startswith [] (p # ps) = False"
| "startswith (c # cs) (p # ps) = (c = p \<and> startswith cs ps)"

fun py_in :: "string \<Rightarrow> string \<Rightarrow> bool" where
  "py_in p [] = (p = [])"
| "py_in p (c # cs) = (startswith (c # cs) p \<or> py_in p cs)"

text \<open>\<open>s.endswith(p)\<close>\<close>

definition endswith :: "string \<Rightarrow> string \<Rightarrow> bool" where
  "endswith s p = startswith (rev s) (rev p)"

text \<open>\<open>s.split()\<close>: the maximal runs of characters that are not white space.\<close>

fun split_ws :: "string \<Rightarrow> string \<Rightarrow> string list" where
  "split_ws cur [] = (if cur = [] then [] else [cur])"
| "split_ws cur (c # cs) =
     (if is_space c then (if cur = [] then split_ws [] cs else cur # split_ws [] cs)
      else split_ws (cur @ [c]) cs)"

definition py_split :: "string \<Rightarrow> string list" where
  "py_split s = split_ws [] s"

text \<open>\<open>s.split(sep)\<close> for a separator of one character: empty pieces are kept.\<close>

fun split_on :: "char \<Rightarrow> string \<Rightarrow> string \<Rightarrow> string list" where
  "split_on sep cur [] = [cur]"
| "split_on sep cur (c # cs) =
     (if c = sep then cur # split_on sep [] cs else split_on sep (cur @ [c]) cs)"

definition py_split_sep :: "char \<Rightarrow> string \<Rightarrow> string list" where
  "py_split_sep sep s = split_on sep [] s"

text \<open>\<open>sep.join(xs)\<close>\<close>

fun join :: "string \<Rightarrow> string list \<Rightarrow> string" where
  "join sep [] = []"
| "join sep [x] = x"
| "join sep (x # y # ys) = x @ sep @ join sep (y # ys)"

text \<open>\<open>s.strip()\<close>\<close>

definition strip :: "string \<Rightarrow> string" where
  "strip s = rev (dropWhile is_space (rev (dropWhile is_space s)))"

text \<open>The slice \<open>xs[:n]\<close>: a negative \<open>n\<close> counts from the end.\<close>

definition py_prefix :: "'a list \<Rightarrow> int \<Rightarrow> 'a list" where
  "py_prefix xs n = (if 0 \<le> n then take (nat n) xs else take (length xs - nat (- n)) xs)"

text \<open>\<open>s.rfind(c)\<close>: the last index of \<open>c\<close>, or \<open>-1\<close>.\<close>

fun rfind_from :: "char \<Rightarrow> string \<Rightarrow> int \<Rightarrow> int \<Rightarrow> int" where
  "rfind_from c [] i best = best"
| "rfind_from c (x # xs) i best = rfind_from c xs (i + 1) (if x = c then i else best)"

definition rfind :: "char \<Rightarrow> string \<Rightarrow> int" where
  "rfind c s = rfind_from c s 0 (- 1)"

text \<open>\<open>str(n)\<close> for an integer.\<close>

fun digits_of_nat :: "nat \<Rightarrow> string" where
  "digits_of_nat n =
     (if n < 10 then [''0123456789'' ! n]
      else digits_of_nat (n div 10) @ [''0123456789'' ! (n mod 10)])"

declare digits_of_nat.simps [simp del]

definition str_of_int :: "int \<Rightarrow> string" where
  "str_of_int i = (if i < 0 then CHR ''-'' # digits_of_nat (nat (- i)) else digits_of_nat (nat i))"

section \<open>Python numbers\<close>

text \<open>
  A Python \<open>float\<close> is an IEEE 754 double; a finite one is modelled as the rational number
  it denotes. The division \<open>a / b\<close> of two integers, for \<open>a\<close> at least 0 and \<open>b\<close> above 0,
  is the quotient rounded to the nearest double, ties to the even significand:
  \<open>binary_exponent\<close> is the exponent \<open>e\<close> with \<open>2 ^ e \<le> a / b < 2 ^ (e + 1)\<close>, the
  doubles around the quotient are the multiples of \<open>2 ^ (e - 52)\<close>, and of \<open>2 ^ (- 1074)\<close>
  below the normal range. A quotient of at most 1 cannot overflow.
\<close>

fun bit_length :: "int \<Rightarrow> nat" where
  "bit_length n = (if n \<le> 0 then 0 else Suc (bit_length (n div 2)))"

declare bit_length.simps [simp del]

definition pow2 :: "int \<Rightarrow> rat" where
  "pow2 k = (if 0 \<le> k then 2 ^ nat k else 1 / 2 ^ nat (- k))"

definition round_half_even :: "rat \<Rightarrow> int" where
  "round_half_even x =
     (let f = \<lfloor>x\<rfloor>; r = x - of_int f
      in if r < 1 / 2 then f else if 1 / 2 < r then f + 1 else if even f then f else f + 1)"

definition binary_exponent :: "int \<Rightarrow> int \<Rightarrow> int" where
  "binary_exponent a b =
     (let k = int (bit_length a) - int (bit_length b)
      in if pow2 k \<le> of_int a / of_int b then k else k - 1)"

definition py_truediv :: "int \<Rightarrow> int \<Rightarrow> rat" where
  "py_truediv a b =
     (if a = 0 then 0
      else let quantum = pow2 (max (binary_exponent a b) (- 1022) - 52)
           in of_int (round_half_even (of_int a / of_int b / quantum)) * quantum)"

section \<open>Errors\<close>

text \<open>
  The exceptions the modelled functions raise: \<open>AttributeError\<close> for a string method
  called on a number, \<open>TypeError\<close> for \<open>len\<close> of a number or an ordering between a string
  and a number, \<open>ValueError\<close> with its message for the explicit \<open>raise\<close> statements.
\<close>

datatype error = AttributeError | TypeError | ValueError string

section \<open>citation.py\<close>

text \<open>
  A metadata value is a string or a number; \<open>citation.py\<close> takes a plain \<open>Dict\<close> and
  passes date fields through \<open>str\<close>.
\<close>

datatype mval = SVal string | IVal int

type_synonym metadata = "string \<rightharpoonup> mval"

text \<open>\<open>metadata.get(key, default)\<close> with a string default.\<close>

definition get_or :: "metadata \<Rightarrow> string \<Rightarrow> string \<Rightarrow> mval" where
  "get_or m k d = (case m k of None \<Rightarrow> SVal d | Some v \<Rightarrow> v)"

text \<open>The truth value of \<open>if v:\<close>\<close>

fun truthy :: "mval \<Rightarrow> bool" where
  "truthy (SVal s) = (s \<noteq> [])"
| "truthy (IVal n) = (n \<noteq> 0)"

text \<open>\<open>str(v)\<close>, also what an f-string puts for \<open>{v}\<close>\<close>

fun py_str :: "mval \<Rightarrow> string" where
  "py_str (SVal s) = s"
| "py_str (IVal n) = str_of_int n"

subsection \<open>\<open>_extract_year\<close>\<close>

text \<open>
  \<open>re.search(r"\b(19|20)\d{2}\b", date_str)\<close>: the leftmost position where the four
  characters match, with a word boundary before and after. \<open>year_at\<close> is the match of
  \<open>(19|20)\d{2}\b\<close> at the head of the text, \<open>re_search_year\<close> scans the start positions
  from the left, carrying whether the character before the position is a word character.
\<close>

fun year_at :: "string \<Rightarrow> bool" where
  "year_at (a # b # c # d # rest) =
     (([a, b] = ''19'' \<or> [a, b] = ''20'') \<and> is_digit c \<and> is_digit d \<and>
      (case rest of [] \<Rightarrow> True | e # _ \<Rightarrow> \<not> is_word e))"
| "year_at _ = False"

fun re_search_year :: "bool \<Rightarrow> string \<Rightarrow> string option" where
  "re_search_year prev_word [] = None"
| "re_search_year prev_word (c # cs) =
     (if \<not> prev_word \<and> year_at (c # cs) then Some (take 4 (c # cs))
      else re_search_year (is_word c) cs)"

text \<open>
  The positions where the pattern matches: the four characters and the boundary after them
  at position \<open>i\<close>, and no word character before it.
\<close>

definition year_match_at :: "bool \<Rightarrow> string \<Rightarrow> nat \<Rightarrow> bool" where
  "year_match_at prev_word s i =
     (year_at (drop i s) \<and> (if i = 0 then \<not> prev_word else \<not> is_word (s ! (i - 1))))"

definition year_fields :: "string list" where
  "year_fields = [''year'', ''publication_date'', ''date'', ''publish_date'']"

fun extract_year_from :: "string list \<Rightarrow> metadata \<Rightarrow> string" where
  "extract_year_from [] m = []"
| "extract_year_from (field # fields) m =
     (case m field of
        None \<Rightarrow> extract_year_from fields m
      | Some v \<Rightarrow>
          (case re_search_year False (py_str v) of
             Some y \<Rightarrow> y
           | None \<Rightarrow> extract_year_from fields m))"

definition extract_year :: "metadata \<Rightarrow> string" where
  "extract_year m = extract_year_from year_fields m"

subsection \<open>\<open>_shorten_title\<close> and \<open>_shorten_url\<close>\<close>

fun shorten_title :: "mval \<Rightarrow> int \<Rightarrow> error + string" where
  "shorten_title (IVal n) max_words = Inl AttributeError"
| "shorten_title (SVal title) max_words =
     (let words = py_split title in
      if int (length words) > max_words
      then Inr (join '' '' (py_prefix words max_words) @ ''...'')
      else Inr title)"

fun shorten_url :: "mval \<Rightarrow> int \<Rightarrow> error + string" where
  "shorten_url (IVal n) max_length = Inl TypeError"
| "shorten_url (SVal url) max_length =
     (if int (length url) > max_length then Inr (py_prefix url max_length @ ''...'')
      else Inr url)"

subsection \<open>The five formats\<close>

text \<open>
  Each format builds the citation from left to right. \<open>add_if\<close> is the step
  \<open>if v: citation += piece\<close> for a piece that cannot fail, \<open>add_title\<close> and \<open>add_url\<close>
  are the steps whose piece calls \<open>_shorten_title\<close> or \<open>_shorten_url\<close>.
\<close>

definition add_if :: "bool \<Rightarrow> string \<Rightarrow> string \<Rightarrow> string" where
  "add_if b piece citation = (if b then citation @ piece else citation)"

definition add_title :: "mval \<Rightarrow> int \<Rightarrow> string \<Rightarrow> string \<Rightarrow> string \<Rightarrow> error + string" where
  "add_title title max_words opening closing citation =
     (if truthy title then
        (case shorten_title title max_words of
           Inl e \<Rightarrow> Inl e
         | Inr t \<Rightarrow> Inr (citation @ opening @ t @ closing))
      else Inr citation)"

definition add_url :: "mval \<Rightarrow> string \<Rightarrow> error + string" where
  "add_url url citation =
     (if truthy url then
        (case shorten_url url 30 of
           Inl e \<Rightarrow> Inl e
         | Inr u \<Rightarrow> Inr (citation @ '' URL:'' @ u))
      else Inr citation)"

definition format_guideline_citation :: "metadata \<Rightarrow> error + string" where
  "format_guideline_citation m =
     (let organization = get_or m ''organization'' ''Official Source'';
          year = extract_year m;
          title = get_or m ''title'' [];
          version = get_or m ''version'' [];
          report_number = get_or m ''report_number'' []
      in case add_title title 5 '' '' [] (''['' @ py_str organization) of
           Inl e \<Rightarrow> Inl e
         | Inr c1 \<Rightarrow>
             Inr (add_if (year \<noteq> []) ('' '' @ year)
                   (add_if (truthy version) ('' v'' @ py_str version)
                     (add_if (truthy report_number) ('' '' @ py_str report_number) c1))
                  @ '']''))"

text \<open>The author list of a research article: \<open>authors.split(",") if authors else []\<close>\<close>

fun author_list :: "mval \<Rightarrow> error + string list" where
  "author_list (SVal a) = Inr (if a = [] then [] else py_split_sep CHR '','' a)"
| "author_list (IVal n) = (if n = 0 then Inr [] else Inl AttributeError)"

fun authors_str :: "string list \<Rightarrow> string" where
  "authors_str [] = ''Anonymous''"
| "authors_str (a # as) =
     (if length (a # as) > 2 then a @ '' et al.'' else join '' & '' (a # as))"

definition format_research_citation :: "metadata \<Rightarrow> error + string" where
  "format_research_citation m =
     (let authors = get_or m ''authors'' [];
          journal = get_or m ''journal'' [];
          year = extract_year m;
          title = get_or m ''title'' [];
          doi = get_or m ''doi'' [];
          url = get_or m ''url'' []
      in case author_list authors of
           Inl e \<Rightarrow> Inl e
         | Inr al \<Rightarrow>
            (case add_title title 6 ('' '' @ [CHR 0x27]) [CHR 0x27] (''['' @ authors_str al) of
               Inl e \<Rightarrow> Inl e
             | Inr c1 \<Rightarrow>
                 (let c2 = add_if (year \<noteq> []) ('' '' @ year)
                             (add_if (truthy journal) ('', '' @ py_str journal) c1)
                  in case (if truthy doi then Inr (c2 @ '' DOI:'' @ py_str doi)
                           else add_url url c2) of
                       Inl e \<Rightarrow> Inl e
                     | Inr c3 \<Rightarrow> Inr (c3 @ '']''))))"

definition format_educational_citation :: "metadata \<Rightarrow> error + string" where
  "format_educational_citation m =
     (let publisher = get_or m ''publisher'' ''Educational Material'';
          year = extract_year m;
          title = get_or m ''title'' []
      in case add_title title 5 '' '' [] (''['' @ py_str publisher) of
           Inl e \<Rightarrow> Inl e
         | Inr c1 \<Rightarrow> Inr (add_if (year \<noteq> []) ('' '' @ year) c1 @ '']''))"

definition format_web_citation :: "metadata \<Rightarrow> error + string" where
  "format_web_citation m =
     (let site_name = get_or m ''site_name'' ''Website'';
          page_title = get_or m ''page_title'' [];
          url = get_or m ''url'' [];
          publish_date = extract_year m;
          access_date = get_or m ''access_date'' []
      in case add_title page_title 5 ('' '' @ [CHR 0x27]) [CHR 0x27] (''['' @ py_str site_name) of
           Inl e \<Rightarrow> Inl e
         | Inr c1 \<Rightarrow>
            (case add_url url (add_if (publish_date \<noteq> []) ('' '' @ publish_date) c1) of
               Inl e \<Rightarrow> Inl e
             | Inr c2 \<Rightarrow>
                 Inr (add_if (truthy access_date)
                        ('' (accessed '' @ py_str access_date @ '')'') c2 @ '']'')))"

definition format_default_citation :: "metadata \<Rightarrow> error + string" where
  "format_default_citation m =
     (let source = get_or m ''source'' ''Source'';
          title = get_or m ''title'' [];
          year = extract_year m
      in case add_title title 5 '' '' [] (''['' @ py_str source) of
           Inl e \<Rightarrow> Inl e
         | Inr c1 \<Rightarrow> Inr (add_if (year \<noteq> []) ('' '' @ year) c1 @ '']''))"

subsection \<open>\<open>format_citation\<close>\<close>

definition format_citation :: "metadata \<Rightarrow> error + string" where
  "format_citation doc_metadata =
     (case get_or doc_metadata ''source_type'' [] of
        IVal n \<Rightarrow> Inl AttributeError
      | SVal s \<Rightarrow>
          (let source_type = lower s in
           if source_type = ''official_guideline'' then format_guideline_citation doc_metadata
           else if source_type = ''research_article'' then format_research_citation doc_metadata
           else if source_type = ''educational_material'' then format_educational_citation doc_metadata
           else if source_type = ''web_page'' then format_web_citation doc_metadata
           else format_default_citation doc_metadata))"

text \<open>The scenario of the specification for a research article, and what the code returns for it.\<close>

definition research_scenario :: metadata where
  "research_scenario =
     [''source_type'' \<mapsto> SVal ''research_article'',
      ''authors'' \<mapsto> SVal ''Smith, J, Doe, A, Lee, C'',
      ''title'' \<mapsto> SVal ''Long Title Exceeding Five Words For Sure'',
      ''journal'' \<mapsto> SVal ''J. Med'',
      ''year'' \<mapsto> SVal ''2021'',
      ''doi'' \<mapsto> SVal ''10.1/x'']"

definition research_scenario_citation :: string where
  "research_scenario_citation =
     ''[Smith et al. '' @ [CHR 0x27] @ ''Long Title Exceeding Five Words For...'' @ [CHR 0x27] @
     '', J. Med 2021 DOI:10.1/x]''"

text \<open>A source of a type the formatter does not know, as in the repository's tests.\<close>

definition unknown_scenario :: metadata where
  "unknown_scenario =
     [''source_type'' \<mapsto> SVal ''unknown_type'', ''title'' \<mapsto> SVal ''Some Unknown Document'']"

text \<open>
  The fields on which the formats call a string method or \<open>len\<close>, and the metadata in
  which each of them, when present, holds a string.
\<close>

definition text_fields :: "string list" where
  "text_fields = [''source_type'', ''title'', ''page_title'', ''authors'', ''url'']"

fun is_str :: "mval \<Rightarrow> bool" where
  "is_str (SVal s) = True"
| "is_str (IVal n) = False"

definition text_fields_are_strings :: "metadata \<Rightarrow> bool" where
  "text_fields_are_strings m =
     list_all (\<lambda>f. case m f of None \<Rightarrow> True | Some v \<Rightarrow> is_str v) text_fields"

definition known_source_types :: "string list" where
  "known_source_types =
     [''official_guideline'', ''research_article'', ''educational_material'', ''web_page'']"

definition bracketed :: "error + string \<Rightarrow> bool" where
  "bracketed r = (\<exists>body. r = Inr (CHR ''['' # body @ '']''))"

section \<open>utils.py\<close>

text \<open>
  A retrieved document: its text and its metadata. A metadata value is a string, an integer
  or a float, a float being the rational number it denotes. The minimum score is a float,
  and the quotient \<open>matches / max(1, len(query_terms))\<close> is the float division of two
  integers.
\<close>

datatype pyval = PStr string | PInt int | PFloat rat

record document =
  page_content :: string
  metadata :: "string \<rightharpoonup> pyval"

subsection \<open>\<open>filter_documents_by_relevance\<close>\<close>

text \<open>\<open>v >= min_score\<close>: an ordering between a string and a number raises \<open>TypeError\<close>.\<close>

fun score_ge :: "pyval \<Rightarrow> rat \<Rightarrow> error + bool" where
  "score_ge (PInt n) min_score = Inr (of_int n \<ge> min_score)"
| "score_ge (PFloat r) min_score = Inr (r \<ge> min_score)"
| "score_ge (PStr s) min_score = Inl TypeError"

text \<open>\<open>doc.metadata.get(score_field, 0)\<close>\<close>

definition declared_score :: "document \<Rightarrow> string \<Rightarrow> pyval" where
  "declared_score doc score_field =
     (case metadata doc score_field of None \<Rightarrow> PInt 0 | Some v \<Rightarrow> v)"

text \<open>The comprehension \<open>[doc for doc in docs if doc.metadata.get(score_field, 0) >= min_score]\<close>\<close>

fun filter_by_score :: "document list \<Rightarrow> rat \<Rightarrow> string \<Rightarrow> error + document list" where
  "filter_by_score [] min_score score_field = Inr []"
| "filter_by_score (doc # docs) min_score score_field =
     (case score_ge (declared_score doc score_field) min_score of
        Inl e \<Rightarrow> Inl e
      | Inr keep \<Rightarrow>
          (case filter_by_score docs min_score score_field of
             Inl e \<Rightarrow> Inl e
           | Inr rest \<Rightarrow> Inr (if keep then doc # rest else rest)))"

text \<open>
  \<open>set(query.lower().split())\<close> as a list without duplicates, and
  \<open>sum(1 for term in query_terms if term in content)\<close>.
\<close>

definition query_terms :: "string \<Rightarrow> string list" where
  "query_terms query = remdups (py_split (lower query))"

fun count_matches :: "string list \<Rightarrow> string \<Rightarrow> nat" where
  "count_matches [] content = 0"
| "count_matches (t # ts) content =
     (if py_in t content then 1 else 0) + count_matches ts content"

text \<open>The fallback loop, appending to \<open>filtered_docs\<close>.\<close>

fun keyword_loop :: "string list \<Rightarrow> rat \<Rightarrow> document list \<Rightarrow> document list \<Rightarrow> document list" where
  "keyword_loop terms min_score filtered_docs [] = filtered_docs"
| "keyword_loop terms min_score filtered_docs (doc # docs) =
     (let content = lower (page_content doc);
          matches = count_matches terms content
      in keyword_loop terms min_score
           (if py_truediv (int matches) (int (max 1 (length terms))) \<ge> min_score
            then filtered_docs @ [doc] else filtered_docs)
           docs)"

definition filter_documents_by_relevance ::
  "document list \<Rightarrow> string \<Rightarrow> rat \<Rightarrow> string \<Rightarrow> error + document list" where
  "filter_documents_by_relevance docs query min_score score_field =
     (case docs of
        [] \<Rightarrow> Inr []
      | first_doc # _ \<Rightarrow>
          if metadata first_doc score_field \<noteq> None
          then filter_by_score docs min_score score_field
          else Inr (keyword_loop (query_terms query) min_score [] docs))"

text \<open>
  The relevance of the specification's post-filter, in its words: the fraction of the query
  terms present in the chunk text, case-insensitively, as whole words. A term is present as
  a whole word where it occurs with no word character next to it on either side.
\<close>

fun whole_word_from :: "bool \<Rightarrow> string \<Rightarrow> string \<Rightarrow> bool" where
  "whole_word_from prev_word t [] = (t = [])"
| "whole_word_from prev_word t (c # cs) =
     ((\<not> prev_word \<and> startswith (c # cs) t \<and>
       (case drop (length t) (c # cs) of [] \<Rightarrow> True | e # _ \<Rightarrow> \<not> is_word e))
      \<or> whole_word_from (is_word c) t cs)"

definition spec_whole_word_overlap :: "string \<Rightarrow> string \<Rightarrow> rat" where
  "spec_whole_word_overlap query text =
     of_nat (length (filter (\<lambda>t. whole_word_from False t (lower text)) (query_terms query)))
     / of_nat (max 1 (length (query_terms query)))"

text \<open>
  The overlap the code computes: a term counts where it is a substring of the text, and
  the number of such terms is divided by the number of terms in floating point.
  \<open>substring_fraction\<close> is the same fraction as an exact number.
\<close>

definition substring_overlap :: "string \<Rightarrow> string \<Rightarrow> rat" where
  "substring_overlap query text =
     py_truediv (int (card {t \<in> set (py_split (lower query)). sublist t (lower text)}))
                (int (max 1 (card (set (py_split (lower query))))))"

definition substring_fraction :: "string \<Rightarrow> string \<Rightarrow> rat" where
  "substring_fraction query text =
     of_nat (card {t \<in> set (py_split (lower query)). sublist t (lower text)})
     / of_nat (max 1 (card (set (py_split (lower query)))))"

text \<open>The declared score of a document as a number, 0 where the field is absent.\<close>

fun numeric :: "pyval \<Rightarrow> rat option" where
  "numeric (PInt n) = Some (of_int n)"
| "numeric (PFloat r) = Some r"
| "numeric (PStr s) = None"

subsection \<open>\<open>generate_disclaimer\<close>\<close>

definition generate_disclaimer :: "string \<Rightarrow> string \<Rightarrow> string" where
  "generate_disclaimer query domain_in =
     (let query_lower = lower query;
          domain = lower domain_in;
          general = ''**General Disclaimer**: This information is for educational purposes only. ''
                    @ ''Always consult qualified professionals when needed.''
      in if domain \<in> set [''medical'', ''health''] then
           (if list_ex (\<lambda>term. py_in term query_lower) [''diagnos'', ''symptom'', ''signs of'']
            then ''**Disclaimer**: This information is not a substitute for professional advice. ''
                 @ ''Consult a qualified provider for personal guidance.''
            else if list_ex (\<lambda>term. py_in term query_lower) [''treat'', ''medication'', ''therapy'']
            then ''**Notice**: Discuss all options with a professional. ''
                 @ ''Individual responses may vary.''
            else general)
         else if domain \<in> set [''legal'', ''law''] then
           ''**Legal Notice**: This does not constitute legal advice. ''
           @ ''Consult an attorney for your specific situation.''
         else if domain \<in> set [''financial'', ''investment''] then
           ''**Financial Disclaimer**: This is not financial advice. ''
           @ ''Consult a qualified financial advisor before making decisions.''
         else general)"

subsection \<open>\<open>format_response\<close>\<close>

text \<open>The second step of \<open>format_response\<close>: the cut at the last period and the marker.\<close>

definition truncation_marker :: string where
  "truncation_marker = '' [response truncated]''"

definition truncate_response :: "string \<Rightarrow> int \<Rightarrow> string" where
  "truncate_response response max_length =
     (if int (length response) > max_length then
        (let last_period = rfind CHR ''.'' (py_prefix response max_length)
         in (if last_period > 0 then py_prefix response (last_period + 1) else response)
            @ truncation_marker)
      else response)"

definition has_disclaimer :: "string \<Rightarrow> bool" where
  "has_disclaimer response = py_in ''disclaimer'' (lower response)"

definition format_response :: "string \<Rightarrow> int \<Rightarrow> bool \<Rightarrow> string \<Rightarrow> string" where
  "format_response response max_length include_disclaimer domain =
     truncate_response
       (if include_disclaimer \<and> \<not> has_disclaimer response
        then response @ [CHR 0x0A, CHR 0x0A] @ generate_disclaimer response domain
        else response)
       max_length"

section \<open>retrieval_chain.py\<close>

text \<open>
  The dictionary \<open>search_kwargs\<close>: the key \<open>k\<close> is always there, the other three only when
  the code stores them. The vector store is outside the repository; its method
  \<open>as_retriever\<close> is a parameter of the model.
\<close>

record search_kwargs =
  kw_k :: int
  kw_score_threshold :: "rat option"
  kw_filter :: "(string \<times> string) list option"
  kw_fetch_k :: "int option"

definition valid_search_types :: "string list" where
  "valid_search_types = [''similarity'', ''mmr'', ''similarity_score_threshold'']"

definition invalid_search_type_message :: string where
  "invalid_search_type_message =
     ''Invalid search_type. Must be one of: ['' @ [CHR 0x27] @ ''similarity'' @ [CHR 0x27] @
     '', '' @ [CHR 0x27] @ ''mmr'' @ [CHR 0x27] @ '', '' @ [CHR 0x27] @
     ''similarity_score_threshold'' @ [CHR 0x27] @ '']''"

text \<open>\<open>if filter_criteria:\<close> holds for a dictionary that is there and not empty.\<close>

fun nonempty_filter :: "(string \<times> string) list option \<Rightarrow> bool" where
  "nonempty_filter None = False"
| "nonempty_filter (Some []) = False"
| "nonempty_filter (Some (c # cs)) = True"

definition get_retriever ::
  "(string \<Rightarrow> search_kwargs \<Rightarrow> 'r) \<Rightarrow> int \<Rightarrow> string \<Rightarrow> rat option \<Rightarrow>
   (string \<times> string) list option \<Rightarrow> int option \<Rightarrow> error + 'r" where
  "get_retriever as_retriever k search_type score_threshold filter_criteria fetch_k =
     (if search_type \<notin> set valid_search_types then
        Inl (ValueError invalid_search_type_message)
      else if search_type = ''similarity_score_threshold'' \<and> score_threshold = None then
        Inl (ValueError ''score_threshold is required for similarity_score_threshold'')
      else
        Inr (as_retriever search_type
              \<lparr>kw_k = k,
               kw_score_threshold = score_threshold,
               kw_filter = (if nonempty_filter filter_criteria then filter_criteria else None),
               kw_fetch_k = (if fetch_k \<noteq> None \<and> search_type = ''mmr'' then fetch_k else None)\<rparr>))"

section \<open>vector_db.py\<close>

text \<open>
  \<open>FAISS.from_documents\<close> and \<open>save_vectorstore\<close> reach outside the repository: the first
  is a parameter that builds the index, the second a parameter that changes the state of
  the disk. \<open>create_from_documents\<close> returns its result and the state of the disk after it.
\<close>

text \<open>\<open>if save_dir:\<close> holds for a directory name that is there and not empty.\<close>

fun given_dir :: "string option \<Rightarrow> bool" where
  "given_dir None = False"
| "given_dir (Some d) = (d \<noteq> [])"

definition create_from_documents ::
  "('d list \<Rightarrow> 'vs) \<Rightarrow> ('vs \<Rightarrow> string \<Rightarrow> 'disk \<Rightarrow> 'disk) \<Rightarrow>
   'd list \<Rightarrow> string option \<Rightarrow> 'disk \<Rightarrow> (error + 'vs) \<times> 'disk" where
  "create_from_documents from_documents save_vectorstore documents save_dir disk =
     (if documents = [] then
        (Inl (ValueError ''No documents provided for vectorstore creation''), disk)
      else
        (let vectorstore = from_documents documents
         in (Inr vectorstore,
             if given_dir save_dir then save_vectorstore vectorstore (the save_dir) disk
             else disk)))"

section \<open>doc_loader.py\<close>

definition header_keywords :: "string list" where
  "header_keywords = [''section'', ''chapter'', ''heading'']"

text \<open>The test of one stripped line in \<open>_extract_section_header\<close>.\<close>

definition is_header :: "string \<Rightarrow> bool" where
  "is_header line =
     (isupper line \<or> endswith line '':'' \<or>
      list_ex (\<lambda>word. py_in word (lower line)) header_keywords)"

fun first_header :: "string list \<Rightarrow> string" where
  "first_header [] = []"
| "first_header (l # ls) =
     (let line = strip l in if is_header line then line else first_header ls)"

definition extract_section_header :: "string \<Rightarrow> string" where
  "extract_section_header text =
     first_header (py_prefix (py_split_sep (CHR 0x0A) text) 3)"

text \<open>
  Documents for the relevance filter: one without a score whose text holds \<open>cat\<close> only
  inside a longer word, one with a declared score of 0.9, and one without a score.
\<close>

definition overlap_example_doc :: document where
  "overlap_example_doc = \<lparr>page_content = ''We concatenate the lists'', metadata = Map.empty\<rparr>"

definition scored_doc :: document where
  "scored_doc = \<lparr>page_content = ''unrelated'', metadata = [''score'' \<mapsto> PFloat (9 / 10)]\<rparr>"

definition unscored_doc :: document where
  "unscored_doc = \<lparr>page_content = ''the query text'', metadata = Map.empty\<rparr>"

text \<open>
  A document that holds one of five query terms, and the double that Python reads for the
  minimum score \<open>0.2\<close>.
\<close>

definition one_of_five_doc :: document where
  "one_of_five_doc = \<lparr>page_content = ''only alpha here'', metadata = Map.empty\<rparr>"

definition double_0_2 :: rat where
  "double_0_2 = 3602879701896397 / 18014398509481984"

text \<open>A text piece that opens with a header, as in the repository's tests.\<close>

definition header_example :: string where
  "header_example =
     ''SECTION 1: Introduction'' @ [CHR 0x0A] @ ''More text'' @ [CHR 0x0A] @ ''Even more''"

section \<open>Properties of the string operations\<close>

lemma startswith_prefix: "startswith s p \<longleftrightarrow> prefix p s"
  by (induction s p rule: startswith.induct) auto

lemma py_in_sublist: "py_in p s \<longleftrightarrow> sublist p s"
  by (induction s) (auto simp: startswith_prefix sublist_Cons_right)

lemma is_str_get_or:
  "text_fields_are_strings m \<Longrightarrow> k \<in> set text_fields \<Longrightarrow> is_str (get_or m k d)"
  by (auto simp: text_fields_are_strings_def get_or_def list_all_iff split: option.splits)

lemma add_title_ok:
  "is_str title \<Longrightarrow> \<exists>t. add_title title n a b c = Inr (c @ t)"
  by (cases title) (auto simp: add_title_def Let_def)

lemma add_url_ok:
  "is_str url \<Longrightarrow> \<exists>t. add_url url c = Inr (c @ t)"
  by (cases url) (auto simp: add_url_def)

lemma add_if_extends: "\<exists>t'. add_if b p (c @ t) = c @ t'"
  by (cases b) (simp_all add: add_if_def)

lemma author_list_ok: "is_str a \<Longrightarrow> \<exists>al. author_list a = Inr al"
  by (cases a) auto


lemma guideline_ok:
  assumes "text_fields_are_strings m"
  shows "bracketed (format_guideline_citation m)"
proof -
  have "is_str (get_or m ''title'' [])"
    using assms by (rule is_str_get_or) (simp add: text_fields_def)
  from add_title_ok [OF this]
  obtain t where "add_title (get_or m ''title'' []) 5 '' '' []
      (''['' @ py_str (get_or m ''organization'' ''Official Source'')) =
      Inr ((''['' @ py_str (get_or m ''organization'' ''Official Source'')) @ t)"
    by blast
  then show ?thesis
    by (simp add: bracketed_def format_guideline_citation_def Let_def add_if_def)
qed

lemma educational_ok:
  assumes "text_fields_are_strings m"
  shows "bracketed (format_educational_citation m)"
proof -
  have "is_str (get_or m ''title'' [])"
    using assms by (rule is_str_get_or) (simp add: text_fields_def)
  from add_title_ok [OF this]
  obtain t where "add_title (get_or m ''title'' []) 5 '' '' []
      (''['' @ py_str (get_or m ''publisher'' ''Educational Material'')) =
      Inr ((''['' @ py_str (get_or m ''publisher'' ''Educational Material'')) @ t)"
    by blast
  then show ?thesis
    by (simp add: bracketed_def format_educational_citation_def Let_def add_if_def)
qed

lemma default_ok:
  assumes "text_fields_are_strings m"
  shows "bracketed (format_default_citation m)"
proof -
  have "is_str (get_or m ''title'' [])"
    using assms by (rule is_str_get_or) (simp add: text_fields_def)
  from add_title_ok [OF this]
  obtain t where "add_title (get_or m ''title'' []) 5 '' '' []
      (''['' @ py_str (get_or m ''source'' ''Source'')) =
      Inr ((''['' @ py_str (get_or m ''source'' ''Source'')) @ t)"
    by blast
  then show ?thesis
    by (simp add: bracketed_def format_default_citation_def Let_def add_if_def)
qed

lemma web_ok:
  assumes "text_fields_are_strings m"
  shows "bracketed (format_web_citation m)"
proof -
  let ?c0 = "''['' @ py_str (get_or m ''site_name'' ''Website'')"
  have "is_str (get_or m ''page_title'' [])"
    using assms by (rule is_str_get_or) (simp add: text_fields_def)
  from add_title_ok [OF this]
  obtain t where c1: "add_title (get_or m ''page_title'' []) 5 ('' '' @ [CHR 0x27]) [CHR 0x27] ?c0
      = Inr (?c0 @ t)"
    by blast
  let ?c1 = "add_if (extract_year m \<noteq> []) ('' '' @ extract_year m) (?c0 @ t)"
  obtain t1 where c1': "?c1 = ?c0 @ t1"
    using add_if_extends by blast
  have "is_str (get_or m ''url'' [])"
    using assms by (rule is_str_get_or) (simp add: text_fields_def)
  from add_url_ok [OF this]
  obtain u where c2: "add_url (get_or m ''url'' []) ?c1 = Inr (?c1 @ u)"
    by blast
  show ?thesis
    unfolding bracketed_def format_web_citation_def Let_def c1 sum.case c2
    unfolding c1' by (simp add: add_if_def)
qed

lemma research_ok:
  assumes "text_fields_are_strings m"
  shows "bracketed (format_research_citation m)"
proof -
  have "is_str (get_or m ''authors'' [])"
    using assms by (rule is_str_get_or) (simp add: text_fields_def)
  from author_list_ok [OF this]
  obtain al where al: "author_list (get_or m ''authors'' []) = Inr al"
    by blast
  let ?c0 = "''['' @ authors_str al"
  have "is_str (get_or m ''title'' [])"
    using assms by (rule is_str_get_or) (simp add: text_fields_def)
  from add_title_ok [OF this]
  obtain t where c1: "add_title (get_or m ''title'' []) 6 ('' '' @ [CHR 0x27]) [CHR 0x27] ?c0
      = Inr (?c0 @ t)"
    by blast
  let ?c2 = "add_if (extract_year m \<noteq> []) ('' '' @ extract_year m)
               (add_if (truthy (get_or m ''journal'' [])) ('', '' @ py_str (get_or m ''journal'' []))
                  (?c0 @ t))"
  obtain tj where "add_if (truthy (get_or m ''journal'' []))
      ('', '' @ py_str (get_or m ''journal'' [])) (?c0 @ t) = ?c0 @ tj"
    using add_if_extends by blast
  then obtain t2 where c2': "?c2 = ?c0 @ t2"
    using add_if_extends [of _ _ ?c0 tj] by auto
  have "is_str (get_or m ''url'' [])"
    using assms by (rule is_str_get_or) (simp add: text_fields_def)
  from add_url_ok [OF this]
  obtain u where c3: "add_url (get_or m ''url'' []) ?c2 = Inr (?c2 @ u)"
    by blast
  show ?thesis
    unfolding bracketed_def format_research_citation_def Let_def al c1 sum.case c3
    unfolding c2' by simp
qed

lemma format_citation_bracketed:
  assumes "text_fields_are_strings m"
  shows "bracketed (format_citation m)"
proof -
  have "is_str (get_or m ''source_type'' [])"
    using assms by (rule is_str_get_or) (simp add: text_fields_def)
  then obtain s where "get_or m ''source_type'' [] = SVal s"
    by (cases "get_or m ''source_type'' []") auto
  then show ?thesis
    using guideline_ok [OF assms] research_ok [OF assms] educational_ok [OF assms]
      web_ok [OF assms] default_ok [OF assms]
    by (simp add: format_citation_def Let_def)
qed

lemma default_source_label:
  assumes "text_fields_are_strings m" and "m ''source'' = None"
  shows "\<exists>rest. format_default_citation m = Inr (''[Source'' @ rest @ '']'')"
proof -
  have "is_str (get_or m ''title'' [])"
    using assms(1) by (rule is_str_get_or) (simp add: text_fields_def)
  from add_title_ok [OF this]
  obtain t where "add_title (get_or m ''title'' []) 5 '' '' [] ''[Source'' = Inr (''[Source'' @ t)"
    by blast
  then show ?thesis
    using assms(2) by (simp add: format_default_citation_def Let_def add_if_def get_or_def)
qed

lemma format_citation_dispatch_default:
  assumes "case m ''source_type'' of None \<Rightarrow> True
           | Some v \<Rightarrow> (case v of SVal s \<Rightarrow> lower s \<notin> set known_source_types | IVal n \<Rightarrow> False)"
  shows "format_citation m = format_default_citation m"
  using assms
  by (auto simp: format_citation_def get_or_def lower_def known_source_types_def Let_def
           split: option.splits mval.splits)

lemma format_citation_empty: "format_citation Map.empty = Inr ''[Source]''"
  by (simp add: format_citation_def get_or_def lower_def format_default_citation_def
        add_title_def add_if_def extract_year_def year_fields_def)


text \<open>
  C1, as the code has it. For every metadata mapping in which the fields \<open>source_type\<close>,
  \<open>title\<close>, \<open>page_title\<close>, \<open>authors\<close> and \<open>url\<close>, where present, hold strings,
  \<open>format_citation\<close> raises nothing and returns a non-empty string, which opens with a
  bracket and closes with one. For the empty mapping it returns \<open>[Source]\<close>. An absent
  \<open>source_type\<close>, and one that is none of the four known types, goes to the default
  format, which opens with the label \<open>[Source\<close> when the field \<open>source\<close> is absent.
\<close>

theorem format_citation_total_on_text:
  "(text_fields_are_strings m \<longrightarrow>
      (\<exists>body. format_citation m = Inr (CHR ''['' # body @ '']'')) \<and>
      (\<exists>s. format_citation m = Inr s \<and> s \<noteq> [])) \<and>
   format_citation Map.empty = Inr ''[Source]'' \<and>
   ((case m ''source_type'' of None \<Rightarrow> True
     | Some v \<Rightarrow> (case v of SVal s \<Rightarrow> lower s \<notin> set known_source_types | IVal n \<Rightarrow> False)) \<longrightarrow>
      format_citation m = format_default_citation m) \<and>
   (text_fields_are_strings m \<and> m ''source'' = None \<longrightarrow>
      (\<exists>rest. format_default_citation m = Inr (''[Source'' @ rest @ '']'')))"
  using format_citation_bracketed [of m] format_citation_dispatch_default [of m]
    default_source_label [of m] format_citation_empty
  unfolding bracketed_def by auto

text \<open>The theorem at the source of unknown type of the repository's tests.\<close>

theorem format_citation_total_on_text_witness:
  "text_fields_are_strings unknown_scenario \<and>
   unknown_scenario ''source_type'' = Some (SVal ''unknown_type'') \<and>
   lower ''unknown_type'' \<notin> set known_source_types \<and>
   unknown_scenario ''source'' = None \<and>
   format_citation unknown_scenario = format_default_citation unknown_scenario \<and>
   (\<exists>s. format_citation unknown_scenario = Inr s \<and> s \<noteq> []) \<and>
   (\<exists>rest. format_default_citation unknown_scenario = Inr (''[Source'' @ rest @ '']''))"
proof -
  have h1: "text_fields_are_strings unknown_scenario"
    by (simp add: text_fields_are_strings_def text_fields_def unknown_scenario_def)
  have h2: "unknown_scenario ''source_type'' = Some (SVal ''unknown_type'')"
    by (simp add: unknown_scenario_def)
  have h3: "lower ''unknown_type'' \<notin> set known_source_types"
    by (simp add: known_source_types_def lower_def lower_char_def upper_letters_def
          lower_letters_def)
  have h4: "unknown_scenario ''source'' = None"
    by (simp add: unknown_scenario_def)
  show ?thesis
    using format_citation_total_on_text [of unknown_scenario] h1 h2 h3 h4
    by auto
qed

text \<open>
  C1 as the specification states it fails: a metadata mapping whose title is the number
  1984 makes \<open>_shorten_title\<close> call \<open>split\<close> on an integer, and no string is returned.
\<close>

theorem format_citation_numeric_title:
  "format_citation [''title'' \<mapsto> IVal 1984] = Inl AttributeError"
  by (simp add: format_citation_def get_or_def lower_def format_default_citation_def
        add_title_def)

lemma research_scenario_value:
  "format_citation research_scenario = Inr research_scenario_citation"
  unfolding research_scenario_def research_scenario_citation_def
  by code_simp

text \<open>
  C2, as the code has it. For the research article of the scenario \<open>format_citation\<close>
  returns \<open>[Smith et al. 'Long Title Exceeding Five Words For...', J. Med 2021 DOI:10.1/x]\<close>:
  the authors are split at every comma, so the first author is \<open>Smith\<close>; the title is cut
  to six words, the limit this format passes to \<open>_shorten_title\<close>; journal, year and DOI
  are there as the specification says.
\<close>

theorem research_scenario_as_coded:
  "format_citation research_scenario = Inr research_scenario_citation \<and>
   research_scenario_citation =
     ''[Smith et al. '' @ [CHR 0x27] @ ''Long Title Exceeding Five Words For...'' @ [CHR 0x27] @
     '', J. Med 2021 DOI:10.1/x]'' \<and>
   py_in ''Smith et al.'' research_scenario_citation \<and>
   shorten_title (SVal ''Long Title Exceeding Five Words For Sure'') 6
     = Inr ''Long Title Exceeding Five Words For...'' \<and>
   py_in ''Long Title Exceeding Five Words For...'' research_scenario_citation \<and>
   py_in ''J. Med'' research_scenario_citation \<and>
   py_in ''2021'' research_scenario_citation \<and>
   py_in ''DOI:10.1/x'' research_scenario_citation"
proof -
  have 1: "py_in ''Smith et al.'' research_scenario_citation"
    unfolding research_scenario_citation_def by code_simp
  have 2: "shorten_title (SVal ''Long Title Exceeding Five Words For Sure'') 6
     = Inr ''Long Title Exceeding Five Words For...''"
    by code_simp
  have 3: "py_in ''Long Title Exceeding Five Words For...'' research_scenario_citation"
    unfolding research_scenario_citation_def by code_simp
  have 4: "py_in ''J. Med'' research_scenario_citation"
    unfolding research_scenario_citation_def by code_simp
  have 5: "py_in ''2021'' research_scenario_citation"
    unfolding research_scenario_citation_def by code_simp
  have 6: "py_in ''DOI:10.1/x'' research_scenario_citation"
    unfolding research_scenario_citation_def by code_simp
  show ?thesis
    using research_scenario_value 1 2 3 4 5 6
    by (simp only: research_scenario_citation_def simp_thms)
qed

text \<open>
  C2 as the specification states it fails: the citation the code returns contains neither
  \<open>Smith, J et al.\<close> nor the title cut to five words.
\<close>

theorem research_scenario_not_as_specified:
  "format_citation research_scenario = Inr research_scenario_citation \<and>
   \<not> py_in ''Smith, J et al.'' research_scenario_citation \<and>
   shorten_title (SVal ''Long Title Exceeding Five Words For Sure'') 5
     = Inr ''Long Title Exceeding Five Words...'' \<and>
   \<not> py_in ''Long Title Exceeding Five Words...'' research_scenario_citation"
proof -
  have 1: "\<not> py_in ''Smith, J et al.'' research_scenario_citation"
    unfolding research_scenario_citation_def by code_simp
  have 2: "shorten_title (SVal ''Long Title Exceeding Five Words For Sure'') 5
     = Inr ''Long Title Exceeding Five Words...''"
    by code_simp
  have 3: "\<not> py_in ''Long Title Exceeding Five Words...'' research_scenario_citation"
    unfolding research_scenario_citation_def by code_simp
  show ?thesis
    using research_scenario_value 1 2 3 by simp
qed

lemma re_search_year_sound:
  "re_search_year pw s = Some y \<Longrightarrow>
     \<exists>c d. is_digit c \<and> is_digit d \<and> (y = ''19'' @ [c, d] \<or> y = ''20'' @ [c, d])"
proof (induction pw s rule: re_search_year.induct)
  case (1 prev_word)
  then show ?case by simp
next
  case (2 prev_word c cs)
  show ?case
  proof (cases "\<not> prev_word \<and> year_at (c # cs)")
    case True
    then obtain a b e f rest where "c # cs = a # b # e # f # rest"
      by (cases "c # cs" rule: year_at.cases) auto
    with True 2 show ?thesis by auto
  next
    case False
    with 2 show ?thesis by auto
  qed
qed

lemma extract_year_from_char:
  "extract_year_from fs m =
     (case find (\<lambda>f. \<exists>v. m f = Some v \<and> re_search_year False (py_str v) \<noteq> None) fs of
        None \<Rightarrow> []
      | Some f \<Rightarrow> the (re_search_year False (py_str (the (m f)))))"
  by (induction fs) (auto split: option.splits)

lemma extract_year_from_first_present:
  "find (\<lambda>f. m f \<noteq> None) fs = Some f \<Longrightarrow> m f = Some v \<Longrightarrow>
   re_search_year False (py_str v) = Some y \<Longrightarrow> extract_year_from fs m = y"
  by (induction fs) (auto split: option.splits if_splits)

lemma extract_year_from_none:
  "\<forall>f\<in>set fs. \<forall>v. m f = Some v \<longrightarrow> re_search_year False (py_str v) = None \<Longrightarrow>
   extract_year_from fs m = []"
  by (induction fs) (auto split: option.splits)

lemma extract_year_from_sound:
  "extract_year_from fs m = [] \<or>
   (\<exists>c d. is_digit c \<and> is_digit d \<and>
      (extract_year_from fs m = ''19'' @ [c, d] \<or> extract_year_from fs m = ''20'' @ [c, d]))"
  by (induction fs) (auto split: option.splits dest: re_search_year_sound)


lemma find_map_index: "find P (map f xs) = map_option f (find (P \<circ> f) xs)"
  by (induction xs) auto

lemma re_search_year_leftmost:
  "re_search_year prev_word s
     = map_option (\<lambda>i. take 4 (drop i s)) (find (year_match_at prev_word s) [0..<length s])"
proof (induction s arbitrary: prev_word)
  case Nil
  then show ?case by simp
next
  case (Cons c cs)
  have idx: "[0..<length (c # cs)] = 0 # map Suc [0..<length cs]"
    by (simp add: upt_conv_Cons map_Suc_upt del: upt_Suc)
  have shift: "year_match_at prev_word (c # cs) \<circ> Suc = year_match_at (is_word c) cs"
    by (auto simp: year_match_at_def fun_eq_iff nth_Cons')
  have zero: "year_match_at prev_word (c # cs) 0 \<longleftrightarrow> \<not> prev_word \<and> year_at (c # cs)"
    by (auto simp: year_match_at_def)
  show ?case
  proof (cases "\<not> prev_word \<and> year_at (c # cs)")
    case True
    then show ?thesis
      unfolding idx using zero by simp
  next
    case False
    then have "re_search_year prev_word (c # cs) = re_search_year (is_word c) cs"
      by auto
    also have "\<dots> = map_option (\<lambda>i. take 4 (drop i cs))
                       (find (year_match_at (is_word c) cs) [0..<length cs])"
      by (rule Cons.IH)
    also have "\<dots> = map_option (\<lambda>i. take 4 (drop i (c # cs)))
                       (find (year_match_at prev_word (c # cs)) [0..<length (c # cs)])"
    proof -
      have nz: "\<not> year_match_at prev_word (c # cs) 0"
        using False zero by simp
      have "find (year_match_at prev_word (c # cs)) (0 # map Suc [0..<length cs])
          = map_option Suc (find (year_match_at (is_word c) cs) [0..<length cs])"
        by (simp only: find.simps nz if_False find_map_index shift)
      then show ?thesis
        unfolding idx by (simp add: option.map_comp comp_def)
    qed
    finally show ?thesis .
  qed
qed

text \<open>
  C6. \<open>_extract_year\<close> goes through the fields \<open>year\<close>, \<open>publication_date\<close>, \<open>date\<close>,
  \<open>publish_date\<close> in this order. Where the first of them that is present holds a year
  matched by the pattern, that year is returned; where no field yields one, the result is
  the empty string. In general the result is the leftmost match in the first field that is
  present and has a match, and it is always the empty string or four digits that begin
  with 19 or 20: the function raises nothing. The match in a field is the one at the
  leftmost position where the pattern matches.
\<close>

theorem extract_year_first_match:
  "(\<forall>f v y. find (\<lambda>f. m f \<noteq> None) year_fields = Some f \<and> m f = Some v \<and>
       re_search_year False (py_str v) = Some y \<longrightarrow> extract_year m = y) \<and>
   ((\<forall>f\<in>set year_fields. \<forall>v. m f = Some v \<longrightarrow> re_search_year False (py_str v) = None) \<longrightarrow>
       extract_year m = []) \<and>
   extract_year m =
     (case find (\<lambda>f. \<exists>v. m f = Some v \<and> re_search_year False (py_str v) \<noteq> None) year_fields of
        None \<Rightarrow> []
      | Some f \<Rightarrow> the (re_search_year False (py_str (the (m f))))) \<and>
   (extract_year m = [] \<or>
    (\<exists>c d. is_digit c \<and> is_digit d \<and>
       (extract_year m = ''19'' @ [c, d] \<or> extract_year m = ''20'' @ [c, d]))) \<and>
   year_fields = [''year'', ''publication_date'', ''date'', ''publish_date''] \<and>
   re_search_year False s
     = map_option (\<lambda>i. take 4 (drop i s)) (find (year_match_at False s) [0..<length s])"
proof (intro conjI allI impI)
  fix f v y
  assume "find (\<lambda>f. m f \<noteq> None) year_fields = Some f \<and> m f = Some v \<and>
       re_search_year False (py_str v) = Some y"
  then show "extract_year m = y"
    unfolding extract_year_def using extract_year_from_first_present by blast
next
  assume "\<forall>f\<in>set year_fields. \<forall>v. m f = Some v \<longrightarrow> re_search_year False (py_str v) = None"
  then show "extract_year m = []"
    unfolding extract_year_def by (rule extract_year_from_none)
next
  show "extract_year m =
     (case find (\<lambda>f. \<exists>v. m f = Some v \<and> re_search_year False (py_str v) \<noteq> None) year_fields of
        None \<Rightarrow> []
      | Some f \<Rightarrow> the (re_search_year False (py_str (the (m f)))))"
    unfolding extract_year_def by (rule extract_year_from_char)
next
  show "extract_year m = [] \<or>
    (\<exists>c d. is_digit c \<and> is_digit d \<and>
       (extract_year m = ''19'' @ [c, d] \<or> extract_year m = ''20'' @ [c, d]))"
    unfolding extract_year_def by (rule extract_year_from_sound)
next
  show "year_fields = [''year'', ''publication_date'', ''date'', ''publish_date'']"
    by (rule year_fields_def)
next
  show "re_search_year False s
     = map_option (\<lambda>i. take 4 (drop i s)) (find (year_match_at False s) [0..<length s])"
    by (rule re_search_year_leftmost)
qed

text \<open>The theorem at two of the cases of the repository's tests: a publication date with a year, and a field without one.\<close>

theorem extract_year_first_match_witness:
  "find (\<lambda>f. [''publication_date'' \<mapsto> SVal ''Jan 15, 2019''] f \<noteq> None) year_fields
     = Some ''publication_date'' \<and>
   re_search_year False (py_str (SVal ''Jan 15, 2019'')) = Some ''2019'' \<and>
   extract_year [''publication_date'' \<mapsto> SVal ''Jan 15, 2019''] = ''2019'' \<and>
   list_all (\<lambda>f. case [''date'' \<mapsto> SVal ''nothing''] f of
                     None \<Rightarrow> True
                   | Some v \<Rightarrow> re_search_year False (py_str v) = None) year_fields \<and>
   extract_year [''date'' \<mapsto> SVal ''nothing''] = []"
proof -
  have h1: "find (\<lambda>f. [''publication_date'' \<mapsto> SVal ''Jan 15, 2019''] f \<noteq> None) year_fields
     = Some ''publication_date''"
    by (simp add: year_fields_def)
  have h2: "re_search_year False (py_str (SVal ''Jan 15, 2019'')) = Some ''2019''"
    by code_simp
  have h3: "re_search_year False ''nothing'' = None"
    by code_simp
  have h4: "\<forall>f\<in>set year_fields. \<forall>v. [''date'' \<mapsto> SVal ''nothing''] f = Some v \<longrightarrow>
       re_search_year False (py_str v) = None"
    using h3 by (simp add: year_fields_def)
  have c1: "extract_year [''publication_date'' \<mapsto> SVal ''Jan 15, 2019''] = ''2019''"
  proof -
    have "[''publication_date'' \<mapsto> SVal ''Jan 15, 2019''] ''publication_date''
            = Some (SVal ''Jan 15, 2019'')"
      by simp
    with extract_year_first_match [of "[''publication_date'' \<mapsto> SVal ''Jan 15, 2019'']"] h1 h2
    show ?thesis by blast
  qed
  have c2: "extract_year [''date'' \<mapsto> SVal ''nothing''] = []"
    using extract_year_first_match [of "[''date'' \<mapsto> SVal ''nothing'']"] h4
    by blast
  have h5: "list_all (\<lambda>f. case [''date'' \<mapsto> SVal ''nothing''] f of
                     None \<Rightarrow> True
                   | Some v \<Rightarrow> re_search_year False (py_str v) = None) year_fields"
    using h3 by (simp add: year_fields_def)
  show ?thesis using h1 h2 h5 c1 c2 by blast
qed


section \<open>Properties of \<open>retrieval_chain.py\<close> and \<open>vector_db.py\<close>\<close>

text \<open>
  C4. With the strategy \<open>similarity_score_threshold\<close> and no \<open>score_threshold\<close>,
  \<open>get_retriever\<close> raises the \<open>ValueError\<close> that says the threshold is required (the
  validation error of the specification); with a threshold it passes both checks and
  returns what the vector store's \<open>as_retriever\<close> builds for that strategy, with the
  threshold among the search arguments.
\<close>

theorem get_retriever_threshold:
  "get_retriever as_retriever k ''similarity_score_threshold'' None filter_criteria fetch_k
     = Inl (ValueError ''score_threshold is required for similarity_score_threshold'') \<and>
   get_retriever as_retriever k ''similarity_score_threshold'' (Some t) filter_criteria fetch_k
     = Inr (as_retriever ''similarity_score_threshold''
             \<lparr>kw_k = k, kw_score_threshold = Some t,
              kw_filter = (if nonempty_filter filter_criteria then filter_criteria else None),
              kw_fetch_k = None\<rparr>)"
  by (simp add: get_retriever_def valid_search_types_def)

text \<open>
  C5. From an empty list of documents \<open>create_from_documents\<close> raises the \<open>ValueError\<close>
  for the missing corpus (the empty-corpus error of the specification): no index is
  returned and nothing is saved. From a list that is not empty it returns the index that
  \<open>FAISS.from_documents\<close> builds, and saves it where a directory is given.
\<close>

theorem create_from_documents_empty:
  "create_from_documents from_documents save_vectorstore [] save_dir disk
     = (Inl (ValueError ''No documents provided for vectorstore creation''), disk) \<and>
   (documents \<noteq> [] \<longrightarrow>
      fst (create_from_documents from_documents save_vectorstore documents save_dir disk)
        = Inr (from_documents documents) \<and>
      snd (create_from_documents from_documents save_vectorstore documents save_dir disk)
        = (if given_dir save_dir
           then save_vectorstore (from_documents documents) (the save_dir) disk else disk))"
  by (simp add: create_from_documents_def Let_def)

text \<open>The theorem for one chunk, with the number of documents as the index and a list of saved indexes as the disk.\<close>

theorem create_from_documents_empty_witness:
  "[''chunk''] \<noteq> [] \<and>
   create_from_documents length (\<lambda>vs dir disk. (dir, vs) # disk) [''chunk''] (Some ''idx'') []
     = (Inr 1, [(''idx'', 1)]) \<and>
   create_from_documents length (\<lambda>vs dir disk. (dir, vs) # disk) ([] :: string list) (Some ''idx'') []
     = (Inl (ValueError ''No documents provided for vectorstore creation''), [])"
  using create_from_documents_empty
    [of length "\<lambda>vs dir disk. (dir, vs) # disk" "Some ''idx''" "[]" "[''chunk'']"]
  by (simp add: prod_eq_iff)

section \<open>Properties of \<open>format_response\<close>\<close>

lemma sublist_map_iff: "sublist p (map f s) \<longleftrightarrow> (\<exists>u. sublist u s \<and> map f u = p)"
  using sublist_map_rightE [of p f s] map_mono_sublist [of _ s f] by blast

lemma has_disclaimer_iff:
  "has_disclaimer response \<longleftrightarrow> (\<exists>u. sublist u response \<and> lower u = ''disclaimer'')"
  by (simp add: has_disclaimer_def py_in_sublist lower_def sublist_map_iff)

lemma truncate_response_short:
  "int (length response) \<le> max_length \<Longrightarrow> truncate_response response max_length = response"
  by (simp add: truncate_response_def)

text \<open>
  C7. With disclaimers enabled, an answer that contains \<open>disclaimer\<close> in any letter case
  gets no disclaimer: the result is the one with disclaimers disabled, and the answer
  itself where it is within \<open>max_length\<close>. A disclaimer is appended exactly when the
  answer does not contain the word.
\<close>

theorem format_response_existing_disclaimer:
  "(has_disclaimer response \<longrightarrow>
      format_response response max_length True domain = truncate_response response max_length \<and>
      format_response response max_length True domain
        = format_response response max_length False domain \<and>
      (int (length response) \<le> max_length \<longrightarrow>
         format_response response max_length True domain = response)) \<and>
   (\<not> has_disclaimer response \<longrightarrow>
      format_response response max_length True domain
        = truncate_response
            (response @ [CHR 0x0A, CHR 0x0A] @ generate_disclaimer response domain) max_length) \<and>
   (has_disclaimer response \<longleftrightarrow> (\<exists>u. sublist u response \<and> lower u = ''disclaimer''))"
  using has_disclaimer_iff [of response]
  by (simp add: format_response_def truncate_response_short)

text \<open>The theorem at an answer that holds the word in upper case, and at one that does not hold it.\<close>

theorem format_response_existing_disclaimer_witness:
  "has_disclaimer ''See the DISCLAIMER below'' \<and>
   int (length ''See the DISCLAIMER below'') \<le> 2000 \<and>
   format_response ''See the DISCLAIMER below'' 2000 True ''general''
     = ''See the DISCLAIMER below'' \<and>
   \<not> has_disclaimer ''Take aspirin'' \<and>
   format_response ''Take aspirin'' 2000 True ''legal''
     = ''Take aspirin'' @ [CHR 0x0A, CHR 0x0A] @
       ''**Legal Notice**: This does not constitute legal advice. '' @
       ''Consult an attorney for your specific situation.''"
proof -
  have h1: "has_disclaimer ''See the DISCLAIMER below''"
    by code_simp
  have h2: "int (length ''See the DISCLAIMER below'') \<le> 2000"
    by simp
  have h3: "\<not> has_disclaimer ''Take aspirin''"
    by code_simp
  have g: "truncate_response
            (''Take aspirin'' @ [CHR 0x0A, CHR 0x0A] @ generate_disclaimer ''Take aspirin'' ''legal'')
            2000
     = ''Take aspirin'' @ [CHR 0x0A, CHR 0x0A] @
       ''**Legal Notice**: This does not constitute legal advice. '' @
       ''Consult an attorney for your specific situation.''"
    by code_simp
  have c1: "format_response ''See the DISCLAIMER below'' 2000 True ''general''
     = ''See the DISCLAIMER below''"
    using format_response_existing_disclaimer [of "''See the DISCLAIMER below''" 2000 "''general''"]
      h1 h2 by blast
  have c2: "format_response ''Take aspirin'' 2000 True ''legal''
     = truncate_response
         (''Take aspirin'' @ [CHR 0x0A, CHR 0x0A] @ generate_disclaimer ''Take aspirin'' ''legal'')
         2000"
    using format_response_existing_disclaimer [of "''Take aspirin''" 2000 "''legal''"] h3
    by blast
  show ?thesis
    using h1 h2 h3 c1 c2 g by (simp only: simp_thms)
qed

lemma rfind_from_absent: "c \<notin> set s \<Longrightarrow> rfind_from c s i best = best"
  by (induction s arbitrary: i best) auto

lemma rfind_absent: "c \<notin> set s \<Longrightarrow> rfind c s = - 1"
  by (simp add: rfind_def rfind_from_absent)

lemma truncate_response_no_period:
  assumes "int (length response) > max_length"
    and "CHR ''.'' \<notin> set (py_prefix response max_length)"
  shows "truncate_response response max_length = response @ truncation_marker"
  using assms by (simp add: truncate_response_def rfind_absent)

text \<open>
  C9. A response longer than \<open>max_length\<close> with no period in \<open>response[:max_length]\<close>, and
  to which no disclaimer is appended, comes back whole with the marker
  \<open>[response truncated]\<close> after it, so the result is longer than \<open>max_length\<close>. The
  response is cut only where a period occurs in \<open>response[:max_length]\<close>, which for
  \<open>max_length\<close> at least 0 is the first \<open>max_length\<close> characters.
\<close>

theorem format_response_no_period:
  "(int (length response) > max_length \<and>
    CHR ''.'' \<notin> set (py_prefix response max_length) \<and>
    (\<not> include_disclaimer \<or> has_disclaimer response) \<longrightarrow>
      format_response response max_length include_disclaimer domain
        = response @ '' [response truncated]'' \<and>
      int (length (format_response response max_length include_disclaimer domain)) > max_length) \<and>
   (int (length response) > max_length \<and>
    (\<not> include_disclaimer \<or> has_disclaimer response) \<and>
    format_response response max_length include_disclaimer domain
      \<noteq> response @ '' [response truncated]'' \<longrightarrow>
      CHR ''.'' \<in> set (py_prefix response max_length)) \<and>
   (0 \<le> max_length \<longrightarrow> py_prefix response max_length = take (nat max_length) response)"
proof (intro conjI impI)
  assume a: "int (length response) > max_length \<and>
    CHR ''.'' \<notin> set (py_prefix response max_length) \<and>
    (\<not> include_disclaimer \<or> has_disclaimer response)"
  then have t: "truncate_response response max_length = response @ truncation_marker"
    using truncate_response_no_period by blast
  from a have f: "format_response response max_length include_disclaimer domain
      = truncate_response response max_length"
    by (auto simp: format_response_def)
  show "format_response response max_length include_disclaimer domain
        = response @ '' [response truncated]''"
    using f t by (simp add: truncation_marker_def)
  show "int (length (format_response response max_length include_disclaimer domain)) > max_length"
    using f t a by simp
next
  assume a: "int (length response) > max_length \<and>
    (\<not> include_disclaimer \<or> has_disclaimer response) \<and>
    format_response response max_length include_disclaimer domain
      \<noteq> response @ '' [response truncated]''"
  then have f: "format_response response max_length include_disclaimer domain
      = truncate_response response max_length"
    by (auto simp: format_response_def)
  show "CHR ''.'' \<in> set (py_prefix response max_length)"
  proof (rule ccontr)
    assume "CHR ''.'' \<notin> set (py_prefix response max_length)"
    with a have "truncate_response response max_length = response @ truncation_marker"
      using truncate_response_no_period by blast
    with f a show False by (simp add: truncation_marker_def)
  qed
next
  assume "0 \<le> max_length"
  then show "py_prefix response max_length = take (nat max_length) response"
    by (simp add: py_prefix_def)
qed


text \<open>The theorem at a response without a period, and at one with a period among its first ten characters.\<close>

theorem format_response_no_period_witness:
  "int (length ''No periods here at all'') > 10 \<and>
   CHR ''.'' \<notin> set (py_prefix ''No periods here at all'' 10) \<and>
   format_response ''No periods here at all'' 10 False ''general''
     = ''No periods here at all [response truncated]'' \<and>
   int (length ''One. Two periods here'') > 10 \<and>
   format_response ''One. Two periods here'' 10 False ''general'' = ''One. [response truncated]'' \<and>
   CHR ''.'' \<in> set (py_prefix ''One. Two periods here'' 10)"
proof -
  have h1: "int (length ''No periods here at all'') > 10"
    by simp
  have h2: "CHR ''.'' \<notin> set (py_prefix ''No periods here at all'' 10)"
    by (simp add: py_prefix_def)
  have c1: "format_response ''No periods here at all'' 10 False ''general''
     = ''No periods here at all'' @ '' [response truncated]''"
    using format_response_no_period [of 10 "''No periods here at all''" False "''general''"] h1 h2
    by blast
  have h3: "int (length ''One. Two periods here'') > 10"
    by simp
  have h4: "format_response ''One. Two periods here'' 10 False ''general''
     = ''One. [response truncated]''"
    by code_simp
  have h5: "format_response ''One. Two periods here'' 10 False ''general''
     \<noteq> ''One. Two periods here'' @ '' [response truncated]''"
    unfolding h4 by simp
  have c2: "CHR ''.'' \<in> set (py_prefix ''One. Two periods here'' 10)"
    using format_response_no_period [of 10 "''One. Two periods here''" False "''general''"] h3 h5
    by blast
  show ?thesis
    using h1 h2 c1 h3 h4 c2 by simp
qed

section \<open>Properties of \<open>_extract_section_header\<close>\<close>

lemma first_header_find:
  "first_header ls = (case find is_header (map strip ls) of None \<Rightarrow> [] | Some line \<Rightarrow> line)"
  by (induction ls) (simp_all add: Let_def)

lemma startswith_single: "startswith s [c] \<longleftrightarrow> s \<noteq> [] \<and> hd s = c"
  by (cases s) auto

lemma endswith_single: "endswith s [c] \<longleftrightarrow> s \<noteq> [] \<and> last s = c"
  by (simp add: endswith_def startswith_single hd_rev)

lemma is_header_iff:
  "is_header line \<longleftrightarrow>
     ((\<exists>c\<in>set line. is_upper c) \<and> (\<forall>c\<in>set line. \<not> is_lower c)) \<or>
     (line \<noteq> [] \<and> last line = CHR '':'') \<or>
     (\<exists>w\<in>set header_keywords. sublist w (lower line))"
  by (simp add: is_header_def isupper_def endswith_single list_ex_iff py_in_sublist)

text \<open>
  C8. \<open>_extract_section_header\<close> looks at the first three lines of the text only, and
  returns the first of them that, stripped, is upper-case, ends with a colon or contains
  \<open>section\<close>, \<open>chapter\<close> or \<open>heading\<close> in any letter case; it returns the empty string
  where none of the three is such a line.
\<close>

theorem extract_section_header_first_lines:
  "extract_section_header text =
     (case find is_header (map strip (take 3 (py_split_sep (CHR 0x0A) text))) of
        None \<Rightarrow> [] | Some line \<Rightarrow> line) \<and>
   (is_header line \<longleftrightarrow>
     ((\<exists>c\<in>set line. is_upper c) \<and> (\<forall>c\<in>set line. \<not> is_lower c)) \<or>
     (line \<noteq> [] \<and> last line = CHR '':'') \<or>
     (\<exists>w\<in>set header_keywords. sublist w (lower line))) \<and>
   header_keywords = [''section'', ''chapter'', ''heading''] \<and>
   \<not> is_header [] \<and>
   (take 3 (py_split_sep (CHR 0x0A) text) = take 3 (py_split_sep (CHR 0x0A) text') \<longrightarrow>
      extract_section_header text = extract_section_header text')"
proof (intro conjI impI)
  show "extract_section_header text =
     (case find is_header (map strip (take 3 (py_split_sep (CHR 0x0A) text))) of
        None \<Rightarrow> [] | Some line \<Rightarrow> line)"
    by (simp add: extract_section_header_def py_prefix_def first_header_find)
  show "is_header line \<longleftrightarrow>
     ((\<exists>c\<in>set line. is_upper c) \<and> (\<forall>c\<in>set line. \<not> is_lower c)) \<or>
     (line \<noteq> [] \<and> last line = CHR '':'') \<or>
     (\<exists>w\<in>set header_keywords. sublist w (lower line))"
    by (rule is_header_iff)
  show "header_keywords = [''section'', ''chapter'', ''heading'']"
    by (rule header_keywords_def)
  show "\<not> is_header []"
    by (simp add: is_header_def isupper_def endswith_def header_keywords_def lower_def)
  assume "take 3 (py_split_sep (CHR 0x0A) text) = take 3 (py_split_sep (CHR 0x0A) text')"
  then show "extract_section_header text = extract_section_header text'"
    by (simp add: extract_section_header_def py_prefix_def)
qed

text \<open>The theorem at the header of the repository's tests, alone and with a fourth line after it.\<close>

theorem extract_section_header_first_lines_witness:
  "extract_section_header header_example = ''SECTION 1: Introduction'' \<and>
   find is_header (map strip (take 3 (py_split_sep (CHR 0x0A) header_example)))
     = Some ''SECTION 1: Introduction'' \<and>
   take 3 (py_split_sep (CHR 0x0A) header_example)
     = take 3 (py_split_sep (CHR 0x0A) (header_example @ [CHR 0x0A] @ ''CHAPTER 2'')) \<and>
   extract_section_header (header_example @ [CHR 0x0A] @ ''CHAPTER 2'')
     = ''SECTION 1: Introduction''"
proof -
  have h1: "find is_header (map strip (take 3 (py_split_sep (CHR 0x0A) header_example)))
     = Some ''SECTION 1: Introduction''"
    unfolding header_example_def by code_simp
  have h2: "take 3 (py_split_sep (CHR 0x0A) header_example)
     = take 3 (py_split_sep (CHR 0x0A) (header_example @ [CHR 0x0A] @ ''CHAPTER 2''))"
    unfolding header_example_def by code_simp
  have c1: "extract_section_header header_example = ''SECTION 1: Introduction''"
    using extract_section_header_first_lines [of header_example] h1 by simp
  have c2: "extract_section_header header_example
     = extract_section_header (header_example @ [CHR 0x0A] @ ''CHAPTER 2'')"
    using extract_section_header_first_lines
      [of header_example _ "header_example @ [CHR 0x0A] @ ''CHAPTER 2''"] h2
    by blast
  show ?thesis
    using h1 h2 c1 c2 by simp
qed


section \<open>Properties of the float division\<close>

lemma pow2_powi: "pow2 k = 2 powi k"
  by (simp add: pow2_def power_int_def inverse_eq_divide power_one_over)

lemma pow2_pos: "0 < pow2 k"
  by (simp add: pow2_powi)

lemma pow2_mono: "k \<le> l \<Longrightarrow> pow2 k \<le> pow2 l"
  by (simp add: pow2_powi power_int_increasing)

lemma round_half_even_close: "\<bar>of_int (round_half_even x) - x\<bar> \<le> 1 / 2"
proof -
  have "of_int \<lfloor>x\<rfloor> \<le> x" and "x < of_int \<lfloor>x\<rfloor> + 1"
    by linarith+
  then show ?thesis
    by (auto simp: round_half_even_def Let_def)
qed

lemma bit_length_mono: "a \<le> b \<Longrightarrow> bit_length a \<le> bit_length b"
proof (induction a arbitrary: b rule: bit_length.induct)
  case (1 n)
  show ?case
  proof (cases "n \<le> 0")
    case True
    then show ?thesis by (simp add: bit_length.simps [of n])
  next
    case False
    with 1 have "n div 2 \<le> b div 2" and "\<not> b \<le> 0"
      by (auto intro: zdiv_mono1)
    with 1 False show ?thesis
      by (simp add: bit_length.simps [of n] bit_length.simps [of b])
  qed
qed

lemma binary_exponent_nonpos: "a \<le> b \<Longrightarrow> binary_exponent a b \<le> 0"
  using bit_length_mono [of a b] by (simp add: binary_exponent_def Let_def)

text \<open>The float quotient of \<open>a \<le> b\<close> is within \<open>2 ^ (- 53)\<close> of the exact quotient.\<close>

lemma py_truediv_close:
  assumes "a \<le> b"
  shows "\<bar>py_truediv a b - of_int a / of_int b\<bar> \<le> 1 / 2 ^ 53"
proof (cases "a = 0")
  case True
  then show ?thesis by (simp add: py_truediv_def)
next
  case False
  define quantum where "quantum = pow2 (max (binary_exponent a b) (- 1022) - 52)"
  define q :: rat where "q = of_int a / of_int b"
  have qpos: "0 < quantum"
    by (simp add: quantum_def pow2_pos)
  have "max (binary_exponent a b) (- 1022) - 52 \<le> - 52"
    using binary_exponent_nonpos [OF assms] by simp
  then have "quantum \<le> pow2 (- 52)"
    unfolding quantum_def by (rule pow2_mono)
  then have qle: "quantum \<le> 1 / 2 ^ 52"
    by (simp add: pow2_def)
  have "py_truediv a b - q = (of_int (round_half_even (q / quantum)) - q / quantum) * quantum"
    using False qpos by (simp add: py_truediv_def Let_def quantum_def q_def algebra_simps)
  then have "\<bar>py_truediv a b - q\<bar>
      = \<bar>of_int (round_half_even (q / quantum)) - q / quantum\<bar> * quantum"
    using qpos by (simp add: abs_mult)
  also have "\<dots> \<le> 1 / 2 * quantum"
    using round_half_even_close [of "q / quantum"] qpos
    by (intro mult_right_mono) auto
  also have "\<dots> \<le> 1 / 2 * (1 / 2 ^ 52)"
    using qle by simp
  finally show ?thesis
    by (simp add: q_def)
qed

lemma py_truediv_zero: "py_truediv 0 b = 0"
  by (simp add: py_truediv_def)

lemma py_truediv_self: "0 < n \<Longrightarrow> py_truediv n n = 1"
  by (simp add: py_truediv_def binary_exponent_def round_half_even_def pow2_def Let_def)

text \<open>
  The quotients \<open>1 / 5\<close>, \<open>4 / 5\<close> and \<open>13 / 20\<close> are the doubles that Python reads for
  \<open>0.2\<close>, \<open>0.8\<close> and \<open>0.65\<close>, each a little off the exact quotient.
\<close>

lemma py_truediv_examples:
  "py_truediv 1 5 = 3602879701896397 / 18014398509481984"
  "py_truediv 4 5 = 3602879701896397 / 4503599627370496"
  "py_truediv 13 20 = 5854679515581645 / 9007199254740992"
  by code_simp+

section \<open>Properties of \<open>filter_documents_by_relevance\<close>\<close>

lemma count_matches_filter:
  "count_matches ts content = length (filter (\<lambda>t. py_in t content) ts)"
  by (induction ts) auto

lemma count_matches_card:
  "count_matches (query_terms query) content
     = card {t \<in> set (py_split (lower query)). sublist t content}"
proof -
  have "distinct (query_terms query)"
    by (simp add: query_terms_def)
  then have "length (filter (\<lambda>t. py_in t content) (query_terms query))
     = card ({t. py_in t content} \<inter> set (query_terms query))"
    by (rule distinct_length_filter)
  moreover have "{t. py_in t content} \<inter> set (query_terms query)
     = {t \<in> set (py_split (lower query)). sublist t content}"
    by (auto simp: query_terms_def py_in_sublist)
  ultimately show ?thesis
    by (simp add: count_matches_filter)
qed

lemma length_query_terms:
  "length (query_terms query) = card (set (py_split (lower query)))"
  by (simp add: query_terms_def length_remdups_card_conv)

lemma keyword_ratio:
  "py_truediv (int (count_matches (query_terms query) (lower text)))
     (int (max 1 (length (query_terms query))))
   = substring_overlap query text"
  by (simp only: substring_overlap_def count_matches_card length_query_terms)

lemma substring_overlap_close:
  "\<bar>substring_overlap query text - substring_fraction query text\<bar> \<le> 1 / 2 ^ 53"
proof -
  let ?terms = "set (py_split (lower query))"
  let ?hits = "{t \<in> ?terms. sublist t (lower text)}"
  have "card ?hits \<le> card ?terms"
    by (rule card_mono) auto
  then have "int (card ?hits) \<le> int (max 1 (card ?terms))"
    by simp
  from py_truediv_close [OF this] show ?thesis
    by (simp only: substring_overlap_def substring_fraction_def of_int_of_nat_eq)
qed

lemma keyword_loop_filter:
  "keyword_loop (query_terms query) min_score acc docs
     = acc @ filter (\<lambda>d. substring_overlap query (page_content d) \<ge> min_score) docs"
proof (induction docs arbitrary: acc)
  case Nil
  then show ?case by simp
next
  case (Cons d docs)
  show ?case
    by (simp only: keyword_loop.simps Let_def keyword_ratio Cons.IH) simp
qed

lemma score_ge_numeric:
  "numeric v = Some r \<Longrightarrow> score_ge v min_score = Inr (r \<ge> min_score)"
  by (cases v) auto

lemma score_ge_text: "numeric v = None \<Longrightarrow> score_ge v min_score = Inl TypeError"
  by (cases v) auto

lemma filter_by_score_numeric:
  "\<forall>d\<in>set docs. numeric (declared_score d score_field) \<noteq> None \<Longrightarrow>
   filter_by_score docs min_score score_field
     = Inr (filter (\<lambda>d. the (numeric (declared_score d score_field)) \<ge> min_score) docs)"
proof (induction docs)
  case Nil
  then show ?case by simp
next
  case (Cons d docs)
  then obtain r where "numeric (declared_score d score_field) = Some r"
    by auto
  with Cons show ?case
    by (simp add: score_ge_numeric)
qed

lemma filter_by_score_sound:
  "filter_by_score docs min_score score_field = Inr ys \<Longrightarrow>
   ys = filter (\<lambda>d. \<exists>r. numeric (declared_score d score_field) = Some r \<and> r \<ge> min_score) docs"
proof (induction docs arbitrary: ys)
  case Nil
  then show ?case by simp
next
  case (Cons d docs)
  show ?case
  proof (cases "numeric (declared_score d score_field)")
    case None
    with Cons.prems show ?thesis
      by (simp add: score_ge_text)
  next
    case (Some r)
    with Cons show ?thesis
      by (auto simp: score_ge_numeric split: sum.splits)
  qed
qed

lemma numeric_number:
  "\<exists>y. numeric (PFloat r) = Some y" "\<exists>y. numeric (PInt n) = Some y"
  by simp_all

text \<open>
  C3, as the code has it. Where the first document carries no score field, the filter
  keeps a document if and only if the fraction of the distinct query terms (the query in
  lower case, split at white space) that occur as substrings of the chunk text in lower
  case is at least the minimum score; the fraction is the float quotient of the two
  counts, the nearest double to the exact fraction and within \<open>2 ^ (- 53)\<close> of it.
  Where the first document carries the score field,
  a document is kept only if its declared score, 0 where the field is absent, is a number
  at least the minimum score, and the call returns whenever every declared score is a
  number. An empty list gives an empty list.
\<close>

theorem filter_documents_by_relevance_modes:
  "(docs \<noteq> [] \<and> metadata (hd docs) score_field = None \<longrightarrow>
      filter_documents_by_relevance docs query min_score score_field
        = Inr (filter (\<lambda>d. substring_overlap query (page_content d) \<ge> min_score) docs)) \<and>
   (docs \<noteq> [] \<and> metadata (hd docs) score_field \<noteq> None \<longrightarrow>
      (\<forall>ys. filter_documents_by_relevance docs query min_score score_field = Inr ys \<longrightarrow>
         ys = filter (\<lambda>d. \<exists>r. numeric (declared_score d score_field) = Some r \<and> r \<ge> min_score)
                docs) \<and>
      ((\<forall>d\<in>set docs. numeric (declared_score d score_field) \<noteq> None) \<longrightarrow>
         filter_documents_by_relevance docs query min_score score_field
           = Inr (filter (\<lambda>d. the (numeric (declared_score d score_field)) \<ge> min_score) docs))) \<and>
   filter_documents_by_relevance [] query min_score score_field = Inr [] \<and>
   substring_overlap query text
     = py_truediv (int (card {t \<in> set (py_split (lower query)). sublist t (lower text)}))
                  (int (max 1 (card (set (py_split (lower query)))))) \<and>
   \<bar>substring_overlap query text
      - of_nat (card {t \<in> set (py_split (lower query)). sublist t (lower text)})
        / of_nat (max 1 (card (set (py_split (lower query)))))\<bar> \<le> 1 / 2 ^ 53"
proof (intro conjI impI allI)
  assume "docs \<noteq> [] \<and> metadata (hd docs) score_field = None"
  then show "filter_documents_by_relevance docs query min_score score_field
        = Inr (filter (\<lambda>d. substring_overlap query (page_content d) \<ge> min_score) docs)"
    using keyword_loop_filter [of query min_score "[]" docs]
    by (cases docs) (simp_all add: filter_documents_by_relevance_def del: keyword_loop.simps)
next
  fix ys
  assume "docs \<noteq> [] \<and> metadata (hd docs) score_field \<noteq> None"
    and "filter_documents_by_relevance docs query min_score score_field = Inr ys"
  then have "filter_by_score docs min_score score_field = Inr ys"
    by (cases docs) (auto simp: filter_documents_by_relevance_def)
  then show "ys = filter (\<lambda>d. \<exists>r. numeric (declared_score d score_field) = Some r \<and> r \<ge> min_score)
                docs"
    by (rule filter_by_score_sound)
next
  assume "docs \<noteq> [] \<and> metadata (hd docs) score_field \<noteq> None"
    and "\<forall>d\<in>set docs. numeric (declared_score d score_field) \<noteq> None"
  then show "filter_documents_by_relevance docs query min_score score_field
           = Inr (filter (\<lambda>d. the (numeric (declared_score d score_field)) \<ge> min_score) docs)"
    using filter_by_score_numeric [of docs score_field min_score]
    by (cases docs) (simp_all add: filter_documents_by_relevance_def del: filter_by_score.simps)
next
  show "filter_documents_by_relevance [] query min_score score_field = Inr []"
    by (simp add: filter_documents_by_relevance_def)
next
  show "substring_overlap query text
     = py_truediv (int (card {t \<in> set (py_split (lower query)). sublist t (lower text)}))
                  (int (max 1 (card (set (py_split (lower query))))))"
    by (rule substring_overlap_def)
next
  show "\<bar>substring_overlap query text
      - of_nat (card {t \<in> set (py_split (lower query)). sublist t (lower text)})
        / of_nat (max 1 (card (set (py_split (lower query)))))\<bar> \<le> 1 / 2 ^ 53"
    using substring_overlap_close [of query "text"] by (simp only: substring_fraction_def)
qed


text \<open>
  The theorem in both modes: a list whose first document has no score, and one whose first
  document has one; and at the minimum score 0.2 with one of five terms in the text, where
  the float quotient is the double of 0.2 and the document is kept.
\<close>

theorem filter_documents_by_relevance_modes_witness:
  "[overlap_example_doc] \<noteq> [] \<and>
   metadata (hd [overlap_example_doc]) ''score'' = None \<and>
   filter_documents_by_relevance [overlap_example_doc] ''cat'' (1 / 2) ''score''
     = Inr (filter (\<lambda>d. substring_overlap ''cat'' (page_content d) \<ge> 1 / 2)
              [overlap_example_doc]) \<and>
   metadata (hd [scored_doc, unscored_doc]) ''score'' \<noteq> None \<and>
   list_all (\<lambda>d. numeric (declared_score d ''score'') \<noteq> None) [scored_doc, unscored_doc] \<and>
   filter_documents_by_relevance [scored_doc, unscored_doc] ''query'' (1 / 2) ''score''
     = Inr [scored_doc] \<and>
   metadata (hd [one_of_five_doc]) ''score'' = None \<and>
   substring_overlap ''alpha beta gamma delta epsilon'' (page_content one_of_five_doc)
     = double_0_2 \<and>
   filter_documents_by_relevance [one_of_five_doc] ''alpha beta gamma delta epsilon''
      double_0_2 ''score''
     = Inr [one_of_five_doc]"
proof -
  have h1: "[overlap_example_doc] \<noteq> [] \<and> metadata (hd [overlap_example_doc]) ''score'' = None"
    by (simp add: overlap_example_doc_def)
  have h2: "[scored_doc, unscored_doc] \<noteq> [] \<and>
            metadata (hd [scored_doc, unscored_doc]) ''score'' \<noteq> None"
    by (simp add: scored_doc_def)
  have h3: "\<forall>d\<in>set [scored_doc, unscored_doc]. numeric (declared_score d ''score'') \<noteq> None"
    by (simp add: scored_doc_def unscored_doc_def declared_score_def numeric_number
          del: numeric.simps)
  have c1: "filter_documents_by_relevance [overlap_example_doc] ''cat'' (1 / 2) ''score''
     = Inr (filter (\<lambda>d. substring_overlap ''cat'' (page_content d) \<ge> 1 / 2)
              [overlap_example_doc])"
    using filter_documents_by_relevance_modes
      [of "[overlap_example_doc]" "''score''" "''cat''" "1 / 2"] h1
    by blast
  have "filter_documents_by_relevance [scored_doc, unscored_doc] ''query'' (1 / 2) ''score''
     = Inr (filter (\<lambda>d. the (numeric (declared_score d ''score'')) \<ge> 1 / 2)
              [scored_doc, unscored_doc])"
    using filter_documents_by_relevance_modes
      [of "[scored_doc, unscored_doc]" "''score''" "''query''" "1 / 2"] h2 h3
    by blast
  then have c2: "filter_documents_by_relevance [scored_doc, unscored_doc] ''query'' (1 / 2) ''score''
     = Inr [scored_doc]"
    by (simp add: scored_doc_def unscored_doc_def declared_score_def)
  have h4: "[one_of_five_doc] \<noteq> [] \<and> metadata (hd [one_of_five_doc]) ''score'' = None"
    by (simp add: one_of_five_doc_def)
  have t: "query_terms ''alpha beta gamma delta epsilon''
     = [''alpha'', ''beta'', ''gamma'', ''delta'', ''epsilon'']"
    by code_simp
  have m: "count_matches [''alpha'', ''beta'', ''gamma'', ''delta'', ''epsilon'']
             (lower ''only alpha here'') = 1"
    by code_simp
  have "substring_overlap ''alpha beta gamma delta epsilon'' ''only alpha here'' = py_truediv 1 5"
    unfolding keyword_ratio [symmetric] t m by simp
  then have h5: "substring_overlap ''alpha beta gamma delta epsilon''
      (page_content one_of_five_doc) = double_0_2"
    by (simp add: one_of_five_doc_def double_0_2_def py_truediv_examples)
  have "filter_documents_by_relevance [one_of_five_doc] ''alpha beta gamma delta epsilon''
      double_0_2 ''score''
     = Inr (filter (\<lambda>d. substring_overlap ''alpha beta gamma delta epsilon'' (page_content d)
                        \<ge> double_0_2) [one_of_five_doc])"
    using filter_documents_by_relevance_modes
      [of "[one_of_five_doc]" "''score''" "''alpha beta gamma delta epsilon''" double_0_2] h4
    by blast
  then have c3: "filter_documents_by_relevance [one_of_five_doc]
      ''alpha beta gamma delta epsilon'' double_0_2 ''score'' = Inr [one_of_five_doc]"
    by (simp add: h5)
  show ?thesis
    using h1 h2 h3 h4 h5 c1 c2 c3 by (simp add: list_all_iff)
qed

lemma cat_terms: "query_terms ''cat'' = [''cat'']"
  by code_simp

lemma cat_concatenate: "py_in ''cat'' (lower ''We concatenate the lists'')"
  by code_simp

lemma cat_not_whole_word:
  "\<not> whole_word_from False ''cat'' (lower ''We concatenate the lists'')"
  by code_simp

text \<open>
  C3 as the specification states it fails: the query \<open>cat\<close> occurs in
  \<open>We concatenate the lists\<close> only inside a word, so the whole-word overlap is 0, below
  the minimum score 0.5, and yet the filter keeps the document.
\<close>

theorem substring_not_whole_word:
  "filter_documents_by_relevance [overlap_example_doc] ''cat'' (1 / 2) ''score''
     = Inr [overlap_example_doc] \<and>
   spec_whole_word_overlap ''cat'' (page_content overlap_example_doc) = 0 \<and>
   spec_whole_word_overlap ''cat'' (page_content overlap_example_doc) < 1 / 2"
proof -
  have 1: "filter_documents_by_relevance [overlap_example_doc] ''cat'' (1 / 2) ''score''
     = Inr [overlap_example_doc]"
    by (simp add: filter_documents_by_relevance_def overlap_example_doc_def cat_terms
          cat_concatenate py_truediv_self)
  have 2: "spec_whole_word_overlap ''cat'' (page_content overlap_example_doc) = 0"
    by (simp add: spec_whole_word_overlap_def overlap_example_doc_def cat_terms
          cat_not_whole_word)
  show ?thesis using 1 2 by simp
qed


lemma filter_by_score_drops_unscored:
  assumes "filter_by_score docs min_score score_field = Inr ys"
    and "0 < min_score" and "metadata d score_field = None"
  shows "d \<notin> set ys"
proof -
  have "ys = filter (\<lambda>d. \<exists>r. numeric (declared_score d score_field) = Some r \<and> r \<ge> min_score)
               docs"
    using assms(1) by (rule filter_by_score_sound)
  moreover have "numeric (declared_score d score_field) = Some 0"
    using assms(3) by (simp add: declared_score_def)
  ultimately show ?thesis
    using assms(2) by auto
qed

text \<open>
  C10. The mode depends on the first document alone: score-based where its metadata holds
  the score field, keyword-based otherwise. In a list whose first document holds the
  field, with a minimum score above 0, a document without the field counts as scored 0:
  it is in no result, whatever its text, and the call returns whenever every declared
  score is a number.
\<close>

theorem score_mode_from_first_document:
  "(filter_documents_by_relevance (first_doc # rest) query min_score score_field
      = (if metadata first_doc score_field \<noteq> None
         then filter_by_score (first_doc # rest) min_score score_field
         else Inr (keyword_loop (query_terms query) min_score [] (first_doc # rest)))) \<and>
   (docs \<noteq> [] \<and> metadata (hd docs) score_field \<noteq> None \<and> 0 < min_score \<and>
    d \<in> set docs \<and> metadata d score_field = None \<longrightarrow>
      declared_score d score_field = PInt 0 \<and>
      score_ge (declared_score d score_field) min_score = Inr False \<and>
      filter_documents_by_relevance docs query min_score score_field
        = filter_by_score docs min_score score_field \<and>
      (\<forall>ys. filter_documents_by_relevance docs query min_score score_field = Inr ys \<longrightarrow>
         d \<notin> set ys) \<and>
      ((\<forall>d'\<in>set docs. numeric (declared_score d' score_field) \<noteq> None) \<longrightarrow>
         (\<exists>ys. filter_documents_by_relevance docs query min_score score_field = Inr ys \<and>
               d \<notin> set ys)))"
proof (intro conjI impI allI)
  show "filter_documents_by_relevance (first_doc # rest) query min_score score_field
      = (if metadata first_doc score_field \<noteq> None
         then filter_by_score (first_doc # rest) min_score score_field
         else Inr (keyword_loop (query_terms query) min_score [] (first_doc # rest)))"
    by (simp add: filter_documents_by_relevance_def del: filter_by_score.simps keyword_loop.simps)
next
  assume a: "docs \<noteq> [] \<and> metadata (hd docs) score_field \<noteq> None \<and> 0 < min_score \<and>
    d \<in> set docs \<and> metadata d score_field = None"
  then show z: "declared_score d score_field = PInt 0"
    by (simp add: declared_score_def)
  from a show "score_ge (declared_score d score_field) min_score = Inr False"
    by (simp add: z)
  from a show m: "filter_documents_by_relevance docs query min_score score_field
        = filter_by_score docs min_score score_field"
    by (cases docs) (auto simp: filter_documents_by_relevance_def)
  {
    fix ys
    assume "filter_documents_by_relevance docs query min_score score_field = Inr ys"
    with m a show "d \<notin> set ys"
      using filter_by_score_drops_unscored by metis
  }
  assume n: "\<forall>d'\<in>set docs. numeric (declared_score d' score_field) \<noteq> None"
  have "filter_by_score docs min_score score_field
     = Inr (filter (\<lambda>d. the (numeric (declared_score d score_field)) \<ge> min_score) docs)"
    using n by (rule filter_by_score_numeric)
  with m a show "\<exists>ys. filter_documents_by_relevance docs query min_score score_field = Inr ys \<and>
               d \<notin> set ys"
    using filter_by_score_drops_unscored by metis
qed

text \<open>The theorem at a scored document followed by one without a score whose text holds every query term.\<close>

theorem score_mode_from_first_document_witness:
  "metadata (hd [scored_doc, unscored_doc]) ''score'' \<noteq> None \<and>
   (0 :: rat) < 1 / 2 \<and>
   unscored_doc \<in> set [scored_doc, unscored_doc] \<and>
   metadata unscored_doc ''score'' = None \<and>
   list_all (\<lambda>d. numeric (declared_score d ''score'') \<noteq> None) [scored_doc, unscored_doc] \<and>
   substring_overlap ''query text'' (page_content unscored_doc) = 1 \<and>
   filter_documents_by_relevance [scored_doc, unscored_doc] ''query text'' (1 / 2) ''score''
     = filter_by_score [scored_doc, unscored_doc] (1 / 2) ''score'' \<and>
   filter_documents_by_relevance [scored_doc, unscored_doc] ''query text'' (1 / 2) ''score''
     = Inr [scored_doc] \<and>
   unscored_doc \<notin> set [scored_doc]"
proof -
  have h1: "[scored_doc, unscored_doc] \<noteq> [] \<and>
     metadata (hd [scored_doc, unscored_doc]) ''score'' \<noteq> None \<and>
     (0 :: rat) < 1 / 2 \<and>
     unscored_doc \<in> set [scored_doc, unscored_doc] \<and>
     metadata unscored_doc ''score'' = None"
    by (simp add: scored_doc_def unscored_doc_def)
  have h2: "\<forall>d\<in>set [scored_doc, unscored_doc]. numeric (declared_score d ''score'') \<noteq> None"
    by (simp add: scored_doc_def unscored_doc_def declared_score_def numeric_number
          del: numeric.simps)
  have t: "query_terms ''query text'' = [''query'', ''text'']"
    by code_simp
  have p: "py_in ''query'' (lower ''the query text'') \<and> py_in ''text'' (lower ''the query text'')"
    by code_simp
  have "substring_overlap ''query text'' ''the query text'' = 1"
    unfolding keyword_ratio [symmetric] using p by (simp add: t py_truediv_self)
  then have h3: "substring_overlap ''query text'' (page_content unscored_doc) = 1"
    by (simp add: unscored_doc_def)
  have c1: "filter_documents_by_relevance [scored_doc, unscored_doc] ''query text'' (1 / 2) ''score''
     = filter_by_score [scored_doc, unscored_doc] (1 / 2) ''score''"
    using score_mode_from_first_document
      [of _ _ "''query text''" "1 / 2" "''score''" "[scored_doc, unscored_doc]" unscored_doc]
      h1
    by blast
  have c2: "filter_by_score [scored_doc, unscored_doc] (1 / 2) ''score'' = Inr [scored_doc]"
    by (simp add: scored_doc_def unscored_doc_def declared_score_def)
  have c3: "unscored_doc \<notin> set [scored_doc]"
    by (simp add: scored_doc_def unscored_doc_def)
  show ?thesis
    using h1 h2 h3 c1 c2 c3 by (simp add: list_all_iff)
qed


end
